theory Spec2Isabelle
  imports Complex_Main "HOL-Library.AList"
begin

section \<open>The UniMe matching engine\<close>

text \<open>
  The scoring and ranking code of \<^verbatim>\<open>backend/match_me.py\<close> and
  \<^verbatim>\<open>backend/api.py\<close>. Python floats are modelled as exact reals, Python
  strings as lists of characters (ASCII text), Python exceptions as the left
  summand of a sum type.
\<close>

subsection \<open>Exceptions and dictionaries\<close>

text \<open>
  The exceptions the scoring code can raise on the data modelled here. A dictionary
  entry is an optional field: \<^verbatim>\<open>d[k]\<close> raises \<^verbatim>\<open>KeyError\<close> when the
  key is absent, \<^verbatim>\<open>d.get(k, default)\<close> falls back to the default.
\<close>

datatype error = KeyError string | ZeroDivisionError

definition getitem :: "string \<Rightarrow> 'a option \<Rightarrow> error + 'a" where
  "getitem k v = (case v of None \<Rightarrow> Inl (KeyError k) | Some x \<Rightarrow> Inr x)"

definition dict_get :: "'a option \<Rightarrow> 'a \<Rightarrow> 'a" where
  "dict_get v d = (case v of None \<Rightarrow> d | Some x \<Rightarrow> x)"

text \<open>Sequencing of computations that may raise: the first exception wins.\<close>

definition bindE :: "error + 'a \<Rightarrow> ('a \<Rightarrow> error + 'b) \<Rightarrow> error + 'b" where
  "bindE m f = (case m of Inl e \<Rightarrow> Inl e | Inr x \<Rightarrow> f x)"

subsection \<open>Strings\<close>

definition lower_char :: "char \<Rightarrow> char" where
  "lower_char c =
     (case map_of (zip ''ABCDEFGHIJKLMNOPQRSTUVWXYZ'' ''abcdefghijklmnopqrstuvwxyz'') c of
        None \<Rightarrow> c | Some d \<Rightarrow> d)"

definition upper_char :: "char \<Rightarrow> char" where
  "upper_char c =
     (case map_of (zip ''abcdefghijklmnopqrstuvwxyz'' ''ABCDEFGHIJKLMNOPQRSTUVWXYZ'') c of
        None \<Rightarrow> c | Some d \<Rightarrow> d)"

text \<open>\<^verbatim>\<open>str.lower\<close>, \<^verbatim>\<open>str.capitalize\<close>, \<^verbatim>\<open>str.replace\<close> on one character,
  \<^verbatim>\<open>str.strip\<close> and the substring test \<^verbatim>\<open>sub in s\<close>.\<close>

definition lower :: "string \<Rightarrow> string" where
  "lower s = map lower_char s"

definition capitalize :: "string \<Rightarrow> string" where
  "capitalize s = (case s of [] \<Rightarrow> [] | c # cs \<Rightarrow> upper_char c # map lower_char cs)"

definition replace :: "char \<Rightarrow> char \<Rightarrow> string \<Rightarrow> string" where
  "replace old new s = map (\<lambda>c. if c = old then new else c) s"

definition is_space :: "char \<Rightarrow> bool" where
  "is_space c \<longleftrightarrow> c \<in> set [CHR '' '', CHR 0x09, CHR 0x0A, CHR 0x0B, CHR 0x0C, CHR 0x0D,
                          CHR 0x1C, CHR 0x1D, CHR 0x1E, CHR 0x1F]"

definition strip :: "string \<Rightarrow> string" where
  "strip s = rev (dropWhile is_space (rev (dropWhile is_space s)))"

fun starts_with :: "string \<Rightarrow> string \<Rightarrow> bool" where
  "starts_with s [] = True"
| "starts_with [] (p # ps) = False"
| "starts_with (c # cs) (p # ps) = (c = p \<and> starts_with cs ps)"

fun str_contains :: "string \<Rightarrow> string \<Rightarrow> bool" where
  "str_contains [] sub = (sub = [])"
| "str_contains (c # cs) sub = (starts_with (c # cs) sub \<or> str_contains cs sub)"

text \<open>\<^verbatim>\<open>normalize_string(s)\<close>\<close>

definition normalize_string :: "string \<Rightarrow> string" where
  "normalize_string s =
     (if s = [] then []
      else strip (replace (CHR ''_'') (CHR '' '')
                   (replace (CHR ''/'') (CHR '' '')
                     (replace (CHR ''-'') (CHR '' '') (lower s)))))"

subsection \<open>Keyword tables\<close>

text \<open>The dictionaries are association lists in the order of the source, which is
  the order Python iterates them in.\<close>

definition INTEREST_MAPPINGS :: "(string \<times> string) list" where
  "INTEREST_MAPPINGS = [
      (''mechanical engineering'', ''Engineering''),
      (''civil engineering'', ''Engineering''),
      (''electrical engineering'', ''Engineering''),
      (''robotics'', ''Engineering''),
      (''mechatronics'', ''Engineering''),
      (''automotive'', ''Engineering''),
      (''aerospace'', ''Engineering''),
      (''structural design'', ''Engineering''),
      (''manufacturing'', ''Engineering''),
      (''product development'', ''Engineering''),
      (''engineering design'', ''Engineering''),
      (''programming'', ''CS/Math''),
      (''software development'', ''CS/Math''),
      (''algorithms'', ''CS/Math''),
      (''data science'', ''CS/Math''),
      (''mathematics'', ''CS/Math''),
      (''statistics'', ''CS/Math''),
      (''computer science'', ''CS/Math''),
      (''web development'', ''CS/Math''),
      (''artificial intelligence'', ''CS/Math''),
      (''machine learning'', ''CS/Math''),
      (''cryptography'', ''CS/Math''),
      (''cybersecurity'', ''CS/Math''),
      (''computational'', ''CS/Math''),
      (''finance'', ''Business''),
      (''marketing'', ''Business''),
      (''entrepreneurship'', ''Business''),
      (''economics'', ''Business''),
      (''accounting'', ''Business''),
      (''management'', ''Business''),
      (''business'', ''Business''),
      (''consulting'', ''Business''),
      (''human resources'', ''Business''),
      (''sales'', ''Business''),
      (''investment'', ''Business''),
      (''stock market'', ''Business''),
      (''taxation'', ''Business''),
      (''audit'', ''Business''),
      (''literature'', ''Arts/Humanities''),
      (''philosophy'', ''Arts/Humanities''),
      (''history'', ''Arts/Humanities''),
      (''languages'', ''Arts/Humanities''),
      (''writing'', ''Arts/Humanities''),
      (''cultural studies'', ''Arts/Humanities''),
      (''art history'', ''Arts/Humanities''),
      (''music'', ''Arts/Humanities''),
      (''film'', ''Arts/Humanities''),
      (''theatre'', ''Arts/Humanities''),
      (''creative writing'', ''Arts/Humanities''),
      (''linguistics'', ''Arts/Humanities''),
      (''anthropology'', ''Arts/Humanities''),
      (''archaeology'', ''Arts/Humanities''),
      (''biology'', ''Sciences''),
      (''chemistry'', ''Sciences''),
      (''physics'', ''Sciences''),
      (''environmental science'', ''Sciences''),
      (''astronomy'', ''Sciences''),
      (''earth sciences'', ''Sciences''),
      (''geology'', ''Sciences''),
      (''biochemistry'', ''Sciences''),
      (''molecular biology'', ''Sciences''),
      (''genetics'', ''Sciences''),
      (''ecology'', ''Sciences''),
      (''marine biology'', ''Sciences''),
      (''forensic science'', ''Sciences''),
      (''medicine'', ''Health''),
      (''nursing'', ''Health''),
      (''kinesiology'', ''Health''),
      (''public health'', ''Health''),
      (''nutrition'', ''Health''),
      (''psychology'', ''Health''),
      (''healthcare'', ''Health''),
      (''anatomy'', ''Health''),
      (''physiology'', ''Health''),
      (''pharmacy'', ''Health''),
      (''biomedical'', ''Health''),
      (''dentistry'', ''Health''),
      (''therapy'', ''Health''),
      (''mental health'', ''Health''),
      (''psychiatry'', ''Health''),
      (''rehabilitation'', ''Health'')]"

definition COURSE_MAPPINGS :: "(string \<times> string) list" where
  "COURSE_MAPPINGS = [
      (''calculus'', ''Math''),
      (''algebra'', ''Math''),
      (''statistics'', ''Math''),
      (''physics'', ''Physics''),
      (''biology'', ''Biology''),
      (''chemistry'', ''Chemistry''),
      (''computer programming'', ''Computer Science''),
      (''business studies'', ''Business''),
      (''economics'', ''Business''),
      (''english'', ''Language Arts''),
      (''literature'', ''Language Arts''),
      (''creative writing'', ''Language Arts''),
      (''history'', ''History''),
      (''geography'', ''Geography''),
      (''art'', ''Visual Arts''),
      (''visual arts'', ''Visual Arts''),
      (''design'', ''Visual Arts''),
      (''shop class'', ''Autoshop''),
      (''auto mechanics'', ''Autoshop'')]"

definition PROGRAM_TYPE_WEIGHTS :: "(string \<times> (string \<times> real) list) list" where
  "PROGRAM_TYPE_WEIGHTS = [
      (''Engineering'', [(''math_enjoyment'', 1.8), (''learning_style'', 1.4),
                         (''coop_importance'', 1.3), (''creativity_orientation'', 1.0)]),
      (''CS/Math'', [(''math_enjoyment'', 1.7), (''collaboration_preference'', 1.2),
                     (''coop_importance'', 1.3)]),
      (''Business'', [(''collaboration_preference'', 1.5), (''career_certainty'', 1.3),
                      (''coop_importance'', 1.4)]),
      (''Arts/Humanities'', [(''creativity_orientation'', 1.8), (''math_enjoyment'', 0.7),
                             (''research_importance'', 1.3)]),
      (''Sciences'', [(''research_importance'', 1.6), (''math_enjoyment'', 1.4),
                      (''learning_style'', 1.3)]),
      (''Health'', [(''collaboration_preference'', 1.4), (''research_importance'', 1.3),
                    (''career_certainty'', 1.2)])]"

text \<open>The local table \<^verbatim>\<open>name_hints\<close> of \<^verbatim>\<open>detect_program_type\<close>.\<close>

definition name_hints :: "(string \<times> string list) list" where
  "name_hints = [
      (''Engineering'', [''engineering'', ''mechanical'', ''electrical'', ''civil'', ''chemical'']),
      (''CS/Math'', [''computer'', ''software'', ''math'', ''data science'', ''computing'']),
      (''Business'', [''business'', ''commerce'', ''management'', ''finance'', ''accounting'',
                      ''marketing'']),
      (''Arts/Humanities'', [''arts'', ''humanities'', ''english'', ''philosophy'', ''history'',
                             ''music'']),
      (''Sciences'', [''science'', ''biology'', ''chemistry'', ''physics'', ''environmental'']),
      (''Health'', [''health'', ''nursing'', ''medicine'', ''kinesiology'', ''pharmacy''])]"

subsection \<open>Catalog entities and user answers\<close>

text \<open>
  A program of \<^verbatim>\<open>program_profiles.json\<close>. Every key may be absent; the eight
  numeric traits of the academic profile are read by name. A Python set is a list
  without duplicates.
\<close>

record academic_profile =
  interests :: "string list option"
  liked_hs_courses :: "string list option"
  alt_to_engineering :: "string list option"
  traits :: "string \<Rightarrow> real option"

record campus_profile =
  class_size_bin :: "string option"
  setting :: "string option"
  housing_styles :: "string list option"
  campus_size :: "string option"

record social_profile =
  night_scene :: "real option"
  sports :: "string list option"
  clubs :: "string list option"
  cultural_event_freq :: "real option"

record program =
  uni :: "string option"
  program :: "string option"
  academic :: "academic_profile option"
  campus :: "campus_profile option"
  social :: "social_profile option"

text \<open>
  The dictionary of answers: \<^verbatim>\<open>user_answers\<close> of \<^verbatim>\<open>match_me.py\<close> and the
  request body \<^verbatim>\<open>answers\<close> of \<^verbatim>\<open>api.py\<close>.
\<close>

record answers =
  wa :: "real option"
  wc :: "real option"
  wso :: "real option"
  W_TOTAL :: "real option"
  AA :: "string list option"
  LS :: "real option"
  SP :: "real option"
  CO :: "real option"
  UR :: "real option"
  CR :: "real option"
  CE :: "real option"
  LC :: "string list option"
  ME :: "real option"
  CP :: "real option"
  ALT :: "string list option"
  CSB :: "string option"
  SET :: "string option"
  HS :: "string list option"
  CPS :: "string option"
  NS :: "real option"
  SPT :: "string list option"
  CLB :: "string list option"
  CEV :: "real option"

subsection \<open>Similarity primitives\<close>

text \<open>\<^verbatim>\<open>calculate_trait_score_with_confidence(user_val, prog_val)\<close>\<close>

definition calculate_trait_score_with_confidence :: "real \<Rightarrow> real \<Rightarrow> real" where
  "calculate_trait_score_with_confidence user_val prog_val =
     (let similarity = 1 - (\<bar>prog_val - user_val\<bar> / 4.0);
          importance = \<bar>user_val - 3\<bar> / 2.0;
          confidence_weight = 0.6 + (importance * 0.4)
      in similarity * confidence_weight)"

text \<open>
  \<^verbatim>\<open>list.index\<close>: the position of the first occurrence. Python raises
  \<^verbatim>\<open>ValueError\<close> when there is none; the only caller tests membership first.
\<close>

fun list_index :: "'a list \<Rightarrow> 'a \<Rightarrow> nat" where
  "list_index [] x = 0"
| "list_index (y # ys) x = (if y = x then 0 else Suc (list_index ys x))"

text \<open>\<^verbatim>\<open>score_categorical_distance(user_pref, prog_val, order_list)\<close>\<close>

definition score_categorical_distance :: "'a \<Rightarrow> 'a \<Rightarrow> 'a list \<Rightarrow> real" where
  "score_categorical_distance user_pref prog_val order_list =
     (if user_pref \<notin> set order_list \<or> prog_val \<notin> set order_list then 0.5
      else
        let user_idx = int (list_index order_list user_pref);
            prog_idx = int (list_index order_list prog_val);
            max_distance = int (length order_list) - 1
        in if max_distance = 0 then 1.0
           else
             let distance = \<bar>user_idx - prog_idx\<bar>
             in 1.0 - (real_of_int distance / real_of_int max_distance) * 0.7)"

subsection \<open>Program-type detection\<close>

text \<open>
  The counter dictionary \<^verbatim>\<open>category_counts\<close> is an association list in insertion
  order: \<^verbatim>\<open>d[c] = d.get(c, 0) + n\<close> keeps the place of a key already present
  and appends a new one.
\<close>

definition incr :: "int \<Rightarrow> string \<Rightarrow> (string \<times> int) list \<Rightarrow> (string \<times> int) list" where
  "incr n category category_counts =
     AList.update category (dict_get (map_of category_counts category) 0 + n) category_counts"

text \<open>The inner loop over a keyword table that stops at the first key term
  contained in the tag.\<close>

fun first_match :: "(string \<times> string) list \<Rightarrow> string \<Rightarrow> string option" where
  "first_match [] s = None"
| "first_match ((key_term, category) # rest) s =
     (if str_contains s key_term then Some category else first_match rest s)"

fun count_interests :: "string list \<Rightarrow> (string \<times> int) list \<Rightarrow> (string \<times> int) list" where
  "count_interests [] category_counts = category_counts"
| "count_interests (interest # rest) category_counts =
     count_interests rest
       (case first_match INTEREST_MAPPINGS (lower interest) of
          None \<Rightarrow> category_counts
        | Some category \<Rightarrow> incr 1 category category_counts)"

fun count_hints :: "string \<Rightarrow> string \<Rightarrow> string list \<Rightarrow> (string \<times> int) list \<Rightarrow> (string \<times> int) list" where
  "count_hints program_name category [] category_counts = category_counts"
| "count_hints program_name category (hint # hints) category_counts =
     count_hints program_name category hints
       (if str_contains program_name hint then incr 2 category category_counts
        else category_counts)"

fun count_name_hints :: "string \<Rightarrow> (string \<times> string list) list \<Rightarrow> (string \<times> int) list \<Rightarrow> (string \<times> int) list" where
  "count_name_hints program_name [] category_counts = category_counts"
| "count_name_hints program_name ((category, hints) # rest) category_counts =
     count_name_hints program_name rest (count_hints program_name category hints category_counts)"

text \<open>\<^verbatim>\<open>max(d, key=d.get)\<close> walks the keys in insertion order and keeps the
  first one whose count is not exceeded later.\<close>

fun max_from :: "string \<times> int \<Rightarrow> (string \<times> int) list \<Rightarrow> string \<times> int" where
  "max_from best [] = best"
| "max_from best (x # xs) = max_from (if snd best < snd x then x else best) xs"

definition empty_academic :: academic_profile where
  "empty_academic = \<lparr>interests = None, liked_hs_courses = None, alt_to_engineering = None,
                      traits = (\<lambda>k. None)\<rparr>"

definition category_counts_of :: "program \<Rightarrow> (string \<times> int) list" where
  "category_counts_of p =
     (let interests = dict_get (interests (dict_get (academic p) empty_academic)) [];
          program_name = lower (dict_get (program p) [])
      in count_name_hints program_name name_hints (count_interests interests []))"

definition detect_program_type :: "program \<Rightarrow> string option" where
  "detect_program_type p =
     (case category_counts_of p of
        [] \<Rightarrow> None
      | x # xs \<Rightarrow> Some (fst (max_from x xs)))"

subsection \<open>Interest and course scores\<close>

text \<open>A Python set is a list without duplicates; \<^verbatim>\<open>len(a.intersection(b))\<close>
  counts the members of \<open>a\<close> that are in \<open>b\<close>.\<close>

definition py_set :: "'a list \<Rightarrow> 'a list" where
  "py_set xs = remdups xs"

definition inter_len :: "'a list \<Rightarrow> 'a list \<Rightarrow> nat" where
  "inter_len a b = length (filter (\<lambda>x. x \<in> set b) a)"

text \<open>The loop over the interest table in \<^verbatim>\<open>enhanced_interest_score\<close>: a key term
  whose category the user did not choose does not end the loop.\<close>

fun interest_inner ::
  "string list \<Rightarrow> string list \<Rightarrow> string \<Rightarrow> (string \<times> string) list \<Rightarrow> real \<times> string list
     \<Rightarrow> real \<times> string list" where
  "interest_inner user_interests user_interests_normalized interest_normalized [] st = st"
| "interest_inner user_interests user_interests_normalized interest_normalized
     ((key_term, category) # rest) (total_score, matched_categories) =
     (if str_contains interest_normalized key_term then
        (let category_normalized = normalize_string category
         in if category_normalized \<in> set user_interests_normalized then
              (if category_normalized \<notin> set matched_categories
               then (total_score + 0.75, List.insert category_normalized matched_categories)
               else (total_score, matched_categories))
            else if category \<in> set user_interests then
              (if category \<notin> set matched_categories
               then (total_score + 0.75, List.insert category matched_categories)
               else (total_score, matched_categories))
            else interest_inner user_interests user_interests_normalized interest_normalized rest
                   (total_score, matched_categories))
      else interest_inner user_interests user_interests_normalized interest_normalized rest
             (total_score, matched_categories))"

fun interest_loop ::
  "string list \<Rightarrow> string list \<Rightarrow> string list \<Rightarrow> real \<times> string list \<Rightarrow> real \<times> string list" where
  "interest_loop user_interests user_interests_normalized [] st = st"
| "interest_loop user_interests user_interests_normalized (interest # rest)
     (total_score, matched_categories) =
     (let interest_normalized = normalize_string interest
      in interest_loop user_interests user_interests_normalized rest
           (if interest_normalized \<in> set user_interests_normalized
            then (total_score + 1.0, List.insert interest_normalized matched_categories)
            else interest_inner user_interests user_interests_normalized interest_normalized
                   INTEREST_MAPPINGS (total_score, matched_categories)))"

definition enhanced_interest_score :: "string list \<Rightarrow> string list \<Rightarrow> real" where
  "enhanced_interest_score user_interests program_interests =
     (if user_interests = [] then 0
      else
        let user_interests_normalized = py_set (map normalize_string user_interests);
            max_possible = length user_interests;
            (total_score, matched_categories) =
               interest_loop user_interests user_interests_normalized program_interests (0.0, [])
        in if total_score = 0 then 0
           else
             let base_score = min (total_score / real max_possible) 1.0;
                 match_bonus = min (real (length matched_categories) * 0.05) 0.15
             in min (base_score + match_bonus) 1.0)"

fun course_inner ::
  "string list \<Rightarrow> string list \<Rightarrow> string \<Rightarrow> (string \<times> string) list \<Rightarrow> real \<times> string list
     \<Rightarrow> real \<times> string list" where
  "course_inner user_courses user_courses_normalized course_normalized [] st = st"
| "course_inner user_courses user_courses_normalized course_normalized
     ((key_term, category) # rest) (total_score, matched_courses) =
     (if str_contains course_normalized key_term then
        (let category_normalized = normalize_string category
         in if category_normalized \<in> set user_courses_normalized \<or> category \<in> set user_courses then
              (if category_normalized \<notin> set matched_courses
               then (total_score + 0.8, List.insert category_normalized matched_courses)
               else (total_score, matched_courses))
            else course_inner user_courses user_courses_normalized course_normalized rest
                   (total_score, matched_courses))
      else course_inner user_courses user_courses_normalized course_normalized rest
             (total_score, matched_courses))"

fun course_loop ::
  "string list \<Rightarrow> string list \<Rightarrow> string list \<Rightarrow> real \<times> string list \<Rightarrow> real \<times> string list" where
  "course_loop user_courses user_courses_normalized [] st = st"
| "course_loop user_courses user_courses_normalized (course # rest)
     (total_score, matched_courses) =
     (let course_normalized = normalize_string course
      in course_loop user_courses user_courses_normalized rest
           (if course_normalized \<in> set user_courses_normalized
            then (total_score + 1.0, List.insert course_normalized matched_courses)
            else course_inner user_courses user_courses_normalized course_normalized
                   COURSE_MAPPINGS (total_score, matched_courses)))"

definition enhanced_course_score :: "string list \<Rightarrow> string list \<Rightarrow> real" where
  "enhanced_course_score user_courses program_courses =
     (if user_courses = [] \<or> program_courses = [] then 0
      else
        let user_courses_normalized = py_set (map normalize_string user_courses);
            (total_score, matched_courses) =
               course_loop user_courses user_courses_normalized program_courses (0.0, []);
            match_ratio = total_score / real (max (length user_courses) 1)
        in min match_ratio 1.0)"

subsection \<open>Facet scorers of \<^verbatim>\<open>match_me.py\<close>\<close>

text \<open>The loop \<^verbatim>\<open>for key, multiplier in type_weights.items()\<close>, which multiplies
  the weights of the keys present.\<close>

fun apply_type_weights :: "(string \<times> real) list \<Rightarrow> (string \<times> real) list \<Rightarrow> (string \<times> real) list" where
  "apply_type_weights [] weights = weights"
| "apply_type_weights ((key, multiplier) # rest) weights =
     apply_type_weights rest
       (case map_of weights key of
          None \<Rightarrow> weights
        | Some w \<Rightarrow> AList.update key (w * multiplier) weights)"

text \<open>The loop \<^verbatim>\<open>for k, s in zip(keys, vals)\<close>, which collects the weighted
  similarities.\<close>

fun num_scores_loop :: "academic_profile \<Rightarrow> (string \<times> real) list \<Rightarrow> (string \<times> real) list \<Rightarrow> error + real list" where
  "num_scores_loop acad weights [] = Inr []"
| "num_scores_loop acad weights ((k, s) # rest) =
     (let prog_val = dict_get (traits acad k) 3;
          weighted_similarity = calculate_trait_score_with_confidence s prog_val
      in bindE (getitem k (map_of weights k)) (\<lambda>weight.
         bindE (num_scores_loop acad weights rest) (\<lambda>num_scores.
         Inr (weighted_similarity * weight # num_scores))))"

definition keys :: "string list" where
  "keys = [''learning_style'', ''first_year_specialization'', ''coop_importance'',
           ''research_importance'', ''creativity_orientation'', ''career_certainty'',
           ''math_enjoyment'', ''collaboration_preference'']"

definition score_academic :: "program \<Rightarrow> answers \<Rightarrow> error + real" where
  "score_academic p user_answers =
     bindE (getitem ''academic'' (academic p)) (\<lambda>acad.
     bindE (getitem ''interests'' (interests acad)) (\<lambda>prog_int.
     bindE (getitem ''AA'' (AA user_answers)) (\<lambda>aa.
     let i_score = enhanced_interest_score aa prog_int * 0.4;
         prog_lc = dict_get (liked_hs_courses acad) []
     in bindE (getitem ''LC'' (LC user_answers)) (\<lambda>lc.
     let lc_score = enhanced_course_score lc prog_lc * 0.2;
         prog_alt = py_set (map normalize_string (dict_get (alt_to_engineering acad) []))
     in bindE (getitem ''ALT'' (ALT user_answers)) (\<lambda>alt.
     let alt_score =
           (if alt \<noteq> [] then
              let user_alt_normalized = py_set (map normalize_string alt);
                  matched_alts = inter_len prog_alt user_alt_normalized
              in (real matched_alts / real (max (length alt) 1)) * 0.1
            else 0)
     in bindE (getitem ''LS'' (LS user_answers)) (\<lambda>ls.
        bindE (getitem ''SP'' (SP user_answers)) (\<lambda>sp.
        bindE (getitem ''CO'' (CO user_answers)) (\<lambda>co.
        bindE (getitem ''UR'' (UR user_answers)) (\<lambda>ur.
        bindE (getitem ''CR'' (CR user_answers)) (\<lambda>cr.
        bindE (getitem ''CE'' (CE user_answers)) (\<lambda>ce.
        bindE (getitem ''ME'' (ME user_answers)) (\<lambda>me.
        bindE (getitem ''CP'' (CP user_answers)) (\<lambda>cp.
     let vals = [ls, sp, co, ur, cr, ce, me, cp];
         weights = [(''learning_style'', 1.2),
                    (''first_year_specialization'', 1.0),
                    (''coop_importance'', if co \<ge> 4 then 1.5 else 1.0),
                    (''research_importance'', if ur \<ge> 4 then 1.5 else 1.0),
                    (''creativity_orientation'', if cr \<ge> 4 then 1.2 else 1.0),
                    (''career_certainty'', 1.0),
                    (''math_enjoyment'', 1.3),
                    (''collaboration_preference'', 1.0)];
         program_type = detect_program_type p;
         weights = (case program_type of
                      None \<Rightarrow> weights
                    | Some t \<Rightarrow>
                        (if t = [] then weights
                         else case map_of PROGRAM_TYPE_WEIGHTS t of
                                None \<Rightarrow> weights
                              | Some type_weights \<Rightarrow> apply_type_weights type_weights weights));
         total_weight = sum_list (map snd weights)
     in bindE (num_scores_loop acad weights (zip keys vals)) (\<lambda>num_scores.
     let num_score = sum_list num_scores / total_weight * 0.3
     in Inr (i_score + lc_score + num_score + alt_score)))))))))))))))"

definition score_campus :: "program \<Rightarrow> answers \<Rightarrow> error + real" where
  "score_campus p user_answers =
     bindE (getitem ''campus'' (campus p)) (\<lambda>base.
     let class_size_order = [''< 60'', ''60-200'', ''200+'']
     in bindE (getitem ''CSB'' (CSB user_answers)) (\<lambda>csb.
     let class_size_score =
           score_categorical_distance csb (dict_get (class_size_bin base) ''60-200'')
             class_size_order;
         scores = [class_size_score];
         user_setting = normalize_string (dict_get (SET user_answers) []);
         prog_setting = normalize_string (dict_get (setting base) []);
         setting_order = [''urban'', ''suburban'', ''small town'', ''rural''];
         scores = scores @
           [if user_setting = prog_setting then 1.0
            else
              let user_setting_mapped = replace (CHR ''-'') (CHR '' '') user_setting;
                  prog_setting_mapped = replace (CHR ''-'') (CHR '' '') prog_setting
              in if user_setting_mapped \<in> set setting_order \<and> prog_setting_mapped \<in> set setting_order
                 then score_categorical_distance user_setting_mapped prog_setting_mapped setting_order
                 else
                   let urban_suburban = [''urban'', ''suburban''];
                       rural_small = [''small town'', ''rural'', ''small-town'']
                   in if user_setting \<in> set urban_suburban \<and> prog_setting \<in> set urban_suburban then 0.6
                      else if user_setting \<in> set rural_small \<and> prog_setting \<in> set rural_small then 0.6
                      else 0.2];
         hs_prog = py_set (map normalize_string (dict_get (housing_styles base) []));
         user_hs = py_set (map normalize_string (dict_get (HS user_answers) []));
         scores = scores @
           [if hs_prog \<noteq> [] \<and> user_hs \<noteq> []
            then real (inter_len user_hs hs_prog) / real (length user_hs)
            else if user_hs = [] then 0.5
            else 0.2];
         campus_size_order = [''Small'', ''Medium'', ''Large''];
         user_cps = dict_get (CPS user_answers) ''Medium'';
         prog_cps = dict_get (campus_size base) ''Medium'';
         user_cps_normalized = (if user_cps \<noteq> [] then capitalize user_cps else ''Medium'');
         prog_cps_normalized = (if prog_cps \<noteq> [] then capitalize prog_cps else ''Medium'');
         campus_score = score_categorical_distance user_cps_normalized prog_cps_normalized
                          campus_size_order;
         scores = scores @ [campus_score]
     in Inr (sum_list scores / real (length scores))))"

definition score_social :: "program \<Rightarrow> answers \<Rightarrow> error + real" where
  "score_social p user_answers =
     bindE (getitem ''social'' (social p)) (\<lambda>base.
     bindE (getitem ''NS'' (NS user_answers)) (\<lambda>ns.
     let prog_ns = dict_get (night_scene base) 3;
         ns_score = calculate_trait_score_with_confidence ns prog_ns;
         sp_prog = py_set (map normalize_string (dict_get (sports base) []));
         user_spt = py_set (map normalize_string (dict_get (SPT user_answers) []));
         spt_score = (if ''none'' \<in> set user_spt \<or> user_spt = [] then 1.0
                      else real (inter_len sp_prog user_spt) / real (max (length user_spt) 1));
         cl_prog = py_set (map normalize_string (dict_get (clubs base) []));
         user_clb = py_set (map normalize_string (dict_get (CLB user_answers) []));
         cl_score = (if user_clb \<noteq> []
                     then real (inter_len cl_prog user_clb) / real (length user_clb)
                     else 0.5);
         prog_cev = dict_get (cultural_event_freq base) 3
     in bindE (getitem ''CEV'' (CEV user_answers)) (\<lambda>cev.
     let cev_score = calculate_trait_score_with_confidence cev prog_cev
     in Inr ((ns_score + spt_score + cl_score + cev_score) / 4))))"

subsection \<open>Ranking of \<^verbatim>\<open>match_me.py\<close>\<close>

text \<open>
  The body of the \<^verbatim>\<open>try\<close> block of \<^verbatim>\<open>compute_matches\<close>, for one program.
  The divisor is \<^verbatim>\<open>user_answers['W_TOTAL'] or 1\<close>, which is never zero.
\<close>

definition score_entry :: "program \<Rightarrow> answers \<Rightarrow> error + (real \<times> real \<times> real \<times> real \<times> string \<times> string)" where
  "score_entry p user_answers =
     bindE (score_academic p user_answers) (\<lambda>a.
     bindE (score_campus p user_answers) (\<lambda>c.
     bindE (score_social p user_answers) (\<lambda>sos.
     bindE (getitem ''wa'' (wa user_answers)) (\<lambda>wa'.
     bindE (getitem ''wc'' (wc user_answers)) (\<lambda>wc'.
     bindE (getitem ''wso'' (wso user_answers)) (\<lambda>wso'.
     bindE (getitem ''W_TOTAL'' (W_TOTAL user_answers)) (\<lambda>w_total.
     let total = (wa' * a + wc' * c + wso' * sos) / (if w_total \<noteq> 0 then w_total else 1)
     in bindE (getitem ''uni'' (uni p)) (\<lambda>uni'.
        bindE (getitem ''program'' (program p)) (\<lambda>program'.
        Inr (total, a, c, sos, uni', program'))))))))))"

text \<open>The loop over the catalog: an exception raised for one program is caught (and
  printed), and the loop goes on with the next program.\<close>

fun results_loop :: "program list \<Rightarrow> answers \<Rightarrow> (real \<times> real \<times> real \<times> real \<times> string \<times> string) list" where
  "results_loop [] user_answers = []"
| "results_loop (p # programs) user_answers =
     (case score_entry p user_answers of
        Inl e \<Rightarrow> results_loop programs user_answers
      | Inr r \<Rightarrow> r # results_loop programs user_answers)"

text \<open>\<^verbatim>\<open>results.sort(reverse=True, key=...)\<close> is stable: entries with equal keys
  keep their order, so it is the stable ascending sort on the negated key.\<close>

definition compute_matches :: "program list \<Rightarrow> answers \<Rightarrow> (real \<times> real \<times> real \<times> real \<times> string \<times> string) list" where
  "compute_matches programs user_answers =
     sort_key (\<lambda>x. - fst x) (results_loop programs user_answers)"

subsection \<open>The engine of \<^verbatim>\<open>api.py\<close>\<close>

text \<open>\<^verbatim>\<open>int(x)\<close> on a number truncates towards zero.\<close>

definition py_int :: "real \<Rightarrow> int" where
  "py_int x = (if 0 \<le> x then \<lfloor>x\<rfloor> else \<lceil>x\<rceil>)"

text \<open>The local variables of \<^verbatim>\<open>compute_matches\<close>, which its nested scoring
  functions read.\<close>

record locals =
  wa' :: real
  wc' :: real
  wso' :: real
  W_TOTAL' :: real
  AA' :: "string list"
  LS' :: int
  SP' :: int
  CO' :: int
  UR' :: int
  CR' :: int
  CE' :: int
  LC' :: "string list"
  ME' :: int
  CP' :: int
  ALT' :: "string list"
  CSB' :: string
  SET' :: string
  HS' :: "string list"
  CPS' :: string
  NS' :: int
  SPT' :: "string list"
  CLB' :: "string list"
  CEV' :: int

definition unpack :: "answers \<Rightarrow> locals" where
  "unpack answers =
     (let wa = dict_get (wa answers) 1;
          wc = dict_get (wc answers) 1;
          wso = dict_get (wso answers) 1
      in \<lparr>wa' = wa, wc' = wc, wso' = wso, W_TOTAL' = wa + wc + wso,
          AA' = dict_get (AA answers) [],
          LS' = py_int (dict_get (LS answers) 3),
          SP' = py_int (dict_get (SP answers) 3),
          CO' = py_int (dict_get (CO answers) 3),
          UR' = py_int (dict_get (UR answers) 3),
          CR' = py_int (dict_get (CR answers) 3),
          CE' = py_int (dict_get (CE answers) 3),
          LC' = dict_get (LC answers) [],
          ME' = py_int (dict_get (ME answers) 3),
          CP' = py_int (dict_get (CP answers) 3),
          ALT' = dict_get (ALT answers) [],
          CSB' = dict_get (CSB answers) [],
          SET' = dict_get (SET answers) [],
          HS' = py_set (dict_get (HS answers) []),
          CPS' = dict_get (CPS answers) [],
          NS' = py_int (dict_get (NS answers) 3),
          SPT' = py_set (dict_get (SPT answers) []),
          CLB' = py_set (dict_get (CLB answers) []),
          CEV' = py_int (dict_get (CEV answers) 3)\<rparr>)"

definition api_score_academic :: "locals \<Rightarrow> program \<Rightarrow> error + real" where
  "api_score_academic l p =
     bindE (getitem ''academic'' (academic p)) (\<lambda>acad.
     bindE (getitem ''interests'' (interests acad)) (\<lambda>prog_int.
     let i_score = enhanced_interest_score (AA' l) prog_int * 0.4;
         prog_lc = dict_get (liked_hs_courses acad) [];
         lc_score = enhanced_course_score (LC' l) prog_lc * 0.2;
         prog_alt = py_set (map normalize_string (dict_get (alt_to_engineering acad) []));
         alt_score =
           (if ALT' l \<noteq> [] then
              let user_alt_normalized = py_set (map normalize_string (ALT' l));
                  matched_alts = inter_len prog_alt user_alt_normalized
              in (real matched_alts / real (max (length (ALT' l)) 1)) * 0.1
            else 0)
     in
     let vals = [real_of_int (LS' l), real_of_int (SP' l), real_of_int (CO' l), real_of_int (UR' l),
                 real_of_int (CR' l), real_of_int (CE' l), real_of_int (ME' l), real_of_int (CP' l)];
         weights = [(''learning_style'', 1.2),
                    (''first_year_specialization'', 1.0),
                    (''coop_importance'', if CO' l \<ge> 4 then 1.5 else 1.0),
                    (''research_importance'', if UR' l \<ge> 4 then 1.5 else 1.0),
                    (''creativity_orientation'', if CR' l \<ge> 4 then 1.2 else 1.0),
                    (''career_certainty'', 1.0),
                    (''math_enjoyment'', 1.3),
                    (''collaboration_preference'', 1.0)];
         program_type = detect_program_type p;
         weights = (case program_type of
                      None \<Rightarrow> weights
                    | Some t \<Rightarrow>
                        (if t = [] then weights
                         else case map_of PROGRAM_TYPE_WEIGHTS t of
                                None \<Rightarrow> weights
                              | Some type_weights \<Rightarrow> apply_type_weights type_weights weights));
         total_weight = sum_list (map snd weights)
     in bindE (num_scores_loop acad weights (zip keys vals)) (\<lambda>num_scores.
     let num_score = sum_list num_scores / total_weight * 0.3
     in Inr (i_score + lc_score + num_score + alt_score))))"

definition api_score_campus :: "locals \<Rightarrow> program \<Rightarrow> error + real" where
  "api_score_campus l p =
     bindE (getitem ''campus'' (campus p)) (\<lambda>base.
     let class_size_order = [''< 60'', ''60-200'', ''200+''];
         class_size_score =
           score_categorical_distance (CSB' l) (dict_get (class_size_bin base) ''60-200'')
             class_size_order;
         scores = [class_size_score];
         user_setting = (if SET' l \<noteq> [] then normalize_string (SET' l) else []);
         prog_setting = normalize_string (dict_get (setting base) []);
         setting_order = [''urban'', ''suburban'', ''small town'', ''rural''];
         scores = scores @
           [if user_setting = prog_setting then 1.0
            else
              let user_setting_mapped = replace (CHR ''-'') (CHR '' '') user_setting;
                  prog_setting_mapped = replace (CHR ''-'') (CHR '' '') prog_setting
              in if user_setting_mapped \<in> set setting_order \<and> prog_setting_mapped \<in> set setting_order
                 then score_categorical_distance user_setting_mapped prog_setting_mapped setting_order
                 else
                   let urban_suburban = [''urban'', ''suburban''];
                       rural_small = [''small town'', ''rural'', ''small-town'']
                   in if user_setting \<in> set urban_suburban \<and> prog_setting \<in> set urban_suburban then 0.6
                      else if user_setting \<in> set rural_small \<and> prog_setting \<in> set rural_small then 0.6
                      else 0.2];
         hs_prog = py_set (map normalize_string (dict_get (housing_styles base) []));
         user_hs = (if HS' l \<noteq> [] then py_set (map normalize_string (HS' l)) else []);
         scores = scores @
           [if hs_prog \<noteq> [] \<and> user_hs \<noteq> []
            then real (inter_len user_hs hs_prog) / real (length user_hs)
            else if user_hs = [] then 0.5
            else 0.2];
         campus_size_order = [''Small'', ''Medium'', ''Large''];
         user_cps = (if CPS' l \<noteq> [] then CPS' l else ''Medium'');
         prog_cps = dict_get (campus_size base) ''Medium'';
         user_cps_normalized = (if user_cps \<noteq> [] then capitalize user_cps else ''Medium'');
         prog_cps_normalized = (if prog_cps \<noteq> [] then capitalize prog_cps else ''Medium'');
         campus_score = score_categorical_distance user_cps_normalized prog_cps_normalized
                          campus_size_order;
         scores = scores @ [campus_score]
     in Inr (sum_list scores / real (length scores)))"

definition api_score_social :: "locals \<Rightarrow> program \<Rightarrow> error + real" where
  "api_score_social l p =
     bindE (getitem ''social'' (social p)) (\<lambda>base.
     let prog_ns = dict_get (night_scene base) 3;
         ns_score = calculate_trait_score_with_confidence (real_of_int (NS' l)) prog_ns;
         sp_prog = py_set (map normalize_string (dict_get (sports base) []));
         user_spt = (if SPT' l \<noteq> [] then py_set (map normalize_string (SPT' l)) else []);
         spt_score = (if ''none'' \<in> set user_spt \<or> user_spt = [] then 1.0
                      else real (inter_len sp_prog user_spt) / real (max (length user_spt) 1));
         cl_prog = py_set (map normalize_string (dict_get (clubs base) []));
         user_clb = (if CLB' l \<noteq> [] then py_set (map normalize_string (CLB' l)) else []);
         cl_score = (if user_clb \<noteq> []
                     then real (inter_len cl_prog user_clb) / real (length user_clb)
                     else 0.5);
         prog_cev = dict_get (cultural_event_freq base) 3;
         cev_score = calculate_trait_score_with_confidence (real_of_int (CEV' l)) prog_cev
     in Inr ((ns_score + spt_score + cl_score + cev_score) / 4))"

record match_result =
  school :: string
  program' :: string
  overall :: real
  academic' :: real
  campus' :: real
  social' :: real

text \<open>The loop over the catalog has no handler: the first exception ends the run.
  The float division raises \<^verbatim>\<open>ZeroDivisionError\<close> on a zero divisor.\<close>

fun api_results_loop :: "locals \<Rightarrow> program list \<Rightarrow> error + match_result list" where
  "api_results_loop l [] = Inr []"
| "api_results_loop l (p # programs) =
     bindE (api_score_academic l p) (\<lambda>a.
     bindE (api_score_campus l p) (\<lambda>c.
     bindE (api_score_social l p) (\<lambda>s.
     bindE (if W_TOTAL' l = 0 then Inl ZeroDivisionError
            else Inr ((wa' l * a + wc' l * c + wso' l * s) / W_TOTAL' l)) (\<lambda>total.
     bindE (getitem ''uni'' (uni p)) (\<lambda>uni'.
     bindE (getitem ''program'' (program p)) (\<lambda>prog.
     bindE (api_results_loop l programs) (\<lambda>results.
     Inr (\<lparr>school = uni', program' = prog, overall = total, academic' = a, campus' = c,
           social' = s\<rparr> # results))))))))"

text \<open>The slice \<^verbatim>\<open>results[:k]\<close>: a negative \<open>k\<close> counts from the end.\<close>

definition slice_to :: "int \<Rightarrow> 'a list \<Rightarrow> 'a list" where
  "slice_to k xs = (if 0 \<le> k then take (nat k) xs else take (nat (int (length xs) + k)) xs)"

definition api_compute_matches :: "program list \<Rightarrow> answers \<Rightarrow> int \<Rightarrow> error + match_result list" where
  "api_compute_matches programs answers num_results =
     bindE (api_results_loop (unpack answers) programs) (\<lambda>results.
     Inr (slice_to num_results (sort_key (\<lambda>x. - overall x) results)))"

subsection \<open>Auxiliary notions\<close>

text \<open>
  Names for expressions that both copies of the scorers contain: the dictionary
  \<^verbatim>\<open>weights\<close> before and after the adjustment to the program type, the score of
  the alternatives to engineering, and the sub-scores of the campus and social
  facets. The properties below are stated with them; the scorers above do not use
  them.
\<close>

definition base_weights :: "bool \<Rightarrow> bool \<Rightarrow> bool \<Rightarrow> (string \<times> real) list" where
  "base_weights co4 ur4 cr4 =
     [(''learning_style'', 1.2),
      (''first_year_specialization'', 1.0),
      (''coop_importance'', if co4 then 1.5 else 1.0),
      (''research_importance'', if ur4 then 1.5 else 1.0),
      (''creativity_orientation'', if cr4 then 1.2 else 1.0),
      (''career_certainty'', 1.0),
      (''math_enjoyment'', 1.3),
      (''collaboration_preference'', 1.0)]"

definition adjust_weights :: "string option \<Rightarrow> (string \<times> real) list \<Rightarrow> (string \<times> real) list" where
  "adjust_weights program_type weights =
     (case program_type of
        None \<Rightarrow> weights
      | Some t \<Rightarrow>
          (if t = [] then weights
           else case map_of PROGRAM_TYPE_WEIGHTS t of
                  None \<Rightarrow> weights
                | Some type_weights \<Rightarrow> apply_type_weights type_weights weights))"

definition alt_score_of :: "string list \<Rightarrow> string list \<Rightarrow> real" where
  "alt_score_of prog_alts alt =
     (if alt \<noteq> [] then
        real (inter_len (py_set (map normalize_string prog_alts)) (py_set (map normalize_string alt)))
          / real (max (length alt) 1) * 0.1
      else 0)"

definition setting_score :: "string \<Rightarrow> string \<Rightarrow> real" where
  "setting_score user_setting prog_setting =
     (if user_setting = prog_setting then 1.0
      else
        let user_setting_mapped = replace (CHR ''-'') (CHR '' '') user_setting;
            prog_setting_mapped = replace (CHR ''-'') (CHR '' '') prog_setting;
            setting_order = [''urban'', ''suburban'', ''small town'', ''rural'']
        in if user_setting_mapped \<in> set setting_order \<and> prog_setting_mapped \<in> set setting_order
           then score_categorical_distance user_setting_mapped prog_setting_mapped setting_order
           else if user_setting \<in> set [''urban'', ''suburban'']
                   \<and> prog_setting \<in> set [''urban'', ''suburban''] then 0.6
           else if user_setting \<in> set [''small town'', ''rural'', ''small-town'']
                   \<and> prog_setting \<in> set [''small town'', ''rural'', ''small-town''] then 0.6
           else 0.2)"

definition housing_score :: "string list \<Rightarrow> string list \<Rightarrow> real" where
  "housing_score hs_prog user_hs =
     (if hs_prog \<noteq> [] \<and> user_hs \<noteq> []
      then real (inter_len user_hs hs_prog) / real (length user_hs)
      else if user_hs = [] then 0.5
      else 0.2)"

definition campus_size_score :: "string \<Rightarrow> string \<Rightarrow> real" where
  "campus_size_score user_cps prog_cps =
     score_categorical_distance
       (if user_cps \<noteq> [] then capitalize user_cps else ''Medium'')
       (if prog_cps \<noteq> [] then capitalize prog_cps else ''Medium'')
       [''Small'', ''Medium'', ''Large'']"

definition sports_score :: "string list \<Rightarrow> string list \<Rightarrow> real" where
  "sports_score sp_prog user_spt =
     (if ''none'' \<in> set user_spt \<or> user_spt = [] then 1.0
      else real (inter_len sp_prog user_spt) / real (max (length user_spt) 1))"

definition clubs_score :: "string list \<Rightarrow> string list \<Rightarrow> real" where
  "clubs_score cl_prog user_clb =
     (if user_clb \<noteq> []
      then real (inter_len cl_prog user_clb) / real (length user_clb)
      else 0.5)"

text \<open>A program whose traits are all neutral, and a user who answers 3 everywhere and
  names no interests, courses or alternatives.\<close>

definition neutral_program :: program where
  "neutral_program =
     \<lparr>uni = Some ''Waterloo'', program = Some ''Nursing'',
      academic = Some \<lparr>interests = Some [''Biology''], liked_hs_courses = None,
                        alt_to_engineering = None, traits = (\<lambda>k. Some 3)\<rparr>,
      campus = Some \<lparr>class_size_bin = Some ''200+'', setting = Some ''Urban'',
                      housing_styles = None, campus_size = Some ''Large''\<rparr>,
      social = Some \<lparr>night_scene = Some 3, sports = None, clubs = None,
                      cultural_event_freq = Some 3\<rparr>\<rparr>"

definition neutral_answers :: answers where
  "neutral_answers =
     \<lparr>wa = Some 1, wc = Some 1, wso = Some 1, W_TOTAL = Some 3,
      AA = Some [], LS = Some 3, SP = Some 3, CO = Some 3, UR = Some 3, CR = Some 3,
      CE = Some 3, LC = Some [], ME = Some 3, CP = Some 3, ALT = Some [],
      CSB = Some ''< 60'', SET = Some ''urban'', HS = Some [], CPS = Some ''Small'',
      NS = Some 3, SPT = Some [], CLB = Some [], CEV = Some 3\<rparr>"

text \<open>The same program without its academic profile, and the same answers with the
  three weights zero.\<close>

definition broken_program :: program where
  "broken_program = neutral_program\<lparr>academic := None\<rparr>"

definition zero_answers :: answers where
  "zero_answers = neutral_answers\<lparr>wa := Some 0, wc := Some 0, wso := Some 0, W_TOTAL := Some 0\<rparr>"

text \<open>A program has the keys that the scorers and the ranking loop index.\<close>

definition has_required_keys :: "program \<Rightarrow> bool" where
  "has_required_keys p \<longleftrightarrow>
     (case academic p of None \<Rightarrow> False | Some acad \<Rightarrow> interests acad \<noteq> None)
     \<and> campus p \<noteq> None \<and> social p \<noteq> None \<and> uni p \<noteq> None \<and> program p \<noteq> None"

section \<open>Properties\<close>

subsection \<open>Trait similarity\<close>

lemma trait_score_diag:
  "calculate_trait_score_with_confidence v v = 0.6 + 0.2 * \<bar>v - 3\<bar>"
  by (simp add: calculate_trait_score_with_confidence_def)

lemma trait_score_diff:
  "calculate_trait_score_with_confidence a b - calculate_trait_score_with_confidence b a
     = (1 - \<bar>a - b\<bar> / 4) * (0.2 * (\<bar>a - 3\<bar> - \<bar>b - 3\<bar>))"
proof -
  have "\<bar>b - a\<bar> = \<bar>a - b\<bar>" by (rule abs_minus_commute)
  then show ?thesis
    by (simp add: calculate_trait_score_with_confidence_def algebra_simps)
qed

text \<open>
  Claim C2, as amended. For a trait value \<open>v\<close> between 1 and 5, the similarity of
  \<open>v\<close> with itself is the confidence weight \<open>0.6 + 0.2 * |v - 3|\<close>: the base
  similarity is 1, and the result is 1 exactly at the two extreme answers 1 and 5
  (0.8 at 2 and 4, 0.6 at the neutral answer 3).
\<close>

theorem trait_sim_self:
  assumes "1 \<le> v" and "v \<le> 5"
  shows "calculate_trait_score_with_confidence v v = 0.6 + 0.2 * \<bar>v - 3\<bar>
         \<and> (calculate_trait_score_with_confidence v v = 1 \<longleftrightarrow> v = 1 \<or> v = 5)"
proof -
  have e: "(0.6 + 0.2 * \<bar>v - 3\<bar> = 1) = (v = 1 \<or> v = 5)"
    using assms by (auto simp: abs_if field_simps)
  have d: "calculate_trait_score_with_confidence v v = 0.6 + 0.2 * \<bar>v - 3\<bar>"
    by (rule trait_score_diag)
  show ?thesis
    using e unfolding d by blast
qed

theorem trait_sim_self_witness:
  "(1::real) \<le> 5 \<and> (5::real) \<le> 5 \<and> calculate_trait_score_with_confidence 5 5 = 1"
  using trait_sim_self [of 5] by simp

theorem trait_sim_self_counterexample:
  "calculate_trait_score_with_confidence 3 3 = 0.6
   \<and> calculate_trait_score_with_confidence 3 3 \<noteq> 1.0"
  by (simp add: calculate_trait_score_with_confidence_def)

text \<open>
  Claim C3, as amended. For trait values \<open>a\<close> and \<open>b\<close> between 1 and 5, swapping the
  user's answer and the program's value leaves the similarity unchanged exactly when
  the two values are equally far from the neutral answer 3; only the base similarity
  is symmetric, the confidence weight reads the user's answer alone.
\<close>

theorem trait_sim_symmetric_iff:
  assumes "1 \<le> a" "a \<le> 5" "1 \<le> b" "b \<le> 5"
  shows "calculate_trait_score_with_confidence a b = calculate_trait_score_with_confidence b a
         \<longleftrightarrow> \<bar>a - 3\<bar> = \<bar>b - 3\<bar>"
proof -
  have "calculate_trait_score_with_confidence a b = calculate_trait_score_with_confidence b a
        \<longleftrightarrow> (1 - \<bar>a - b\<bar> / 4) * (0.2 * (\<bar>a - 3\<bar> - \<bar>b - 3\<bar>)) = 0"
    using trait_score_diff [of a b] by auto
  also have "\<dots> \<longleftrightarrow> \<bar>a - b\<bar> = 4 \<or> \<bar>a - 3\<bar> = \<bar>b - 3\<bar>"
    by auto
  also have "\<dots> \<longleftrightarrow> \<bar>a - 3\<bar> = \<bar>b - 3\<bar>"
    using assms by (auto simp: abs_if)
  finally show ?thesis .
qed

theorem trait_sim_symmetric_iff_witness:
  "calculate_trait_score_with_confidence 2 4 = calculate_trait_score_with_confidence 4 2"
  using trait_sim_symmetric_iff [of 2 4] by simp

theorem trait_sim_symmetric_counterexample:
  "calculate_trait_score_with_confidence 1 3 = 0.5
   \<and> calculate_trait_score_with_confidence 3 1 = 0.3
   \<and> calculate_trait_score_with_confidence 1 3 \<noteq> calculate_trait_score_with_confidence 3 1"
  by (simp add: calculate_trait_score_with_confidence_def)

subsection \<open>Ordered-categorical distance\<close>







subsection \<open>The academic scorer\<close>

lemma score_academic_eq:
  assumes "academic p = Some acad" "interests acad = Some prog_int"
    and "AA u = Some aa" "LC u = Some lc" "ALT u = Some alt"
    and "LS u = Some ls" "SP u = Some sp" "CO u = Some co" "UR u = Some ur"
    and "CR u = Some cr" "CE u = Some ce" "ME u = Some me" "CP u = Some cp"
  shows "score_academic p u =
     bindE (num_scores_loop acad
              (adjust_weights (detect_program_type p) (base_weights (4 \<le> co) (4 \<le> ur) (4 \<le> cr)))
              (zip keys [ls, sp, co, ur, cr, ce, me, cp]))
       (\<lambda>num_scores. Inr (enhanced_interest_score aa prog_int * 0.4
          + enhanced_course_score lc (dict_get (liked_hs_courses acad) []) * 0.2
          + sum_list num_scores
              / sum_list (map snd (adjust_weights (detect_program_type p)
                                     (base_weights (4 \<le> co) (4 \<le> ur) (4 \<le> cr)))) * 0.3
          + alt_score_of (dict_get (alt_to_engineering acad) []) alt))"
  unfolding score_academic_def adjust_weights_def base_weights_def alt_score_of_def
  by (simp add: assms bindE_def getitem_def Let_def cong: if_cong option.case_cong)

























subsection \<open>Facet scores\<close>

lemma score_campus_eq:
  assumes "campus p = Some base" and "CSB u = Some csb"
  shows "score_campus p u =
     Inr ((score_categorical_distance csb (dict_get (class_size_bin base) ''60-200'')
             [''< 60'', ''60-200'', ''200+'']
           + setting_score (normalize_string (dict_get (SET u) []))
               (normalize_string (dict_get (setting base) []))
           + housing_score (py_set (map normalize_string (dict_get (housing_styles base) [])))
               (py_set (map normalize_string (dict_get (HS u) [])))
           + campus_size_score (dict_get (CPS u) ''Medium'') (dict_get (campus_size base) ''Medium''))
          / 4)"
  unfolding score_campus_def setting_score_def housing_score_def campus_size_score_def
  by (simp add: assms bindE_def getitem_def Let_def cong: if_cong)

lemma score_social_eq:
  assumes "social p = Some base" and "NS u = Some ns" and "CEV u = Some cev"
  shows "score_social p u =
     Inr ((calculate_trait_score_with_confidence ns (dict_get (night_scene base) 3)
           + sports_score (py_set (map normalize_string (dict_get (sports base) [])))
               (py_set (map normalize_string (dict_get (SPT u) [])))
           + clubs_score (py_set (map normalize_string (dict_get (clubs base) [])))
               (py_set (map normalize_string (dict_get (CLB u) [])))
           + calculate_trait_score_with_confidence cev (dict_get (cultural_event_freq base) 3))
          / 4)"
  unfolding score_social_def sports_score_def clubs_score_def
  by (simp add: assms bindE_def getitem_def Let_def cong: if_cong)


























subsection \<open>The two copies of the scorers\<close>

lemma api_score_academic_eq:
  assumes "academic p = Some acad" "interests acad = Some prog_int"
  shows "api_score_academic l p =
     bindE (num_scores_loop acad
              (adjust_weights (detect_program_type p)
                 (base_weights (4 \<le> CO' l) (4 \<le> UR' l) (4 \<le> CR' l)))
              (zip keys [real_of_int (LS' l), real_of_int (SP' l), real_of_int (CO' l),
                         real_of_int (UR' l), real_of_int (CR' l), real_of_int (CE' l),
                         real_of_int (ME' l), real_of_int (CP' l)]))
       (\<lambda>num_scores. Inr (enhanced_interest_score (AA' l) prog_int * 0.4
          + enhanced_course_score (LC' l) (dict_get (liked_hs_courses acad) []) * 0.2
          + sum_list num_scores
              / sum_list (map snd (adjust_weights (detect_program_type p)
                                     (base_weights (4 \<le> CO' l) (4 \<le> UR' l) (4 \<le> CR' l)))) * 0.3
          + alt_score_of (dict_get (alt_to_engineering acad) []) (ALT' l)))"
  unfolding api_score_academic_def adjust_weights_def base_weights_def alt_score_of_def
  by (simp add: assms bindE_def getitem_def Let_def cong: if_cong option.case_cong)

lemma api_score_campus_eq:
  assumes "campus p = Some base"
  shows "api_score_campus l p =
     Inr ((score_categorical_distance (CSB' l) (dict_get (class_size_bin base) ''60-200'')
             [''< 60'', ''60-200'', ''200+'']
           + setting_score (if SET' l \<noteq> [] then normalize_string (SET' l) else [])
               (normalize_string (dict_get (setting base) []))
           + housing_score (py_set (map normalize_string (dict_get (housing_styles base) [])))
               (if HS' l \<noteq> [] then py_set (map normalize_string (HS' l)) else [])
           + campus_size_score (if CPS' l \<noteq> [] then CPS' l else ''Medium'')
               (dict_get (campus_size base) ''Medium''))
          / 4)"
  unfolding api_score_campus_def setting_score_def housing_score_def campus_size_score_def
  by (simp add: assms bindE_def getitem_def Let_def cong: if_cong)

lemma api_score_social_eq:
  assumes "social p = Some base"
  shows "api_score_social l p =
     Inr ((calculate_trait_score_with_confidence (real_of_int (NS' l)) (dict_get (night_scene base) 3)
           + sports_score (py_set (map normalize_string (dict_get (sports base) [])))
               (if SPT' l \<noteq> [] then py_set (map normalize_string (SPT' l)) else [])
           + clubs_score (py_set (map normalize_string (dict_get (clubs base) [])))
               (if CLB' l \<noteq> [] then py_set (map normalize_string (CLB' l)) else [])
           + calculate_trait_score_with_confidence (real_of_int (CEV' l))
               (dict_get (cultural_event_freq base) 3))
          / 4)"
  unfolding api_score_social_def sports_score_def clubs_score_def
  by (simp add: assms bindE_def getitem_def Let_def cong: if_cong)

lemma py_int_of_int: "py_int (real_of_int n) = n"
  by (simp add: py_int_def)

lemma normalize_string_Nil: "normalize_string [] = []"
  by (simp add: normalize_string_def)

lemma py_set_map_py_set: "py_set (map f (py_set xs)) = py_set (map f xs)"
  by (simp add: py_set_def remdups_map_remdups)

lemma py_set_Nil_iff: "py_set xs = [] \<longleftrightarrow> xs = []"
  by (simp add: py_set_def)

lemma py_set_Nil: "py_set [] = []"
  by (simp add: py_set_def)

lemma set_arg_eq:
  "(if py_set xs \<noteq> [] then py_set (map f (py_set xs)) else []) = py_set (map f xs)"
  by (cases xs) (simp_all add: py_set_map_py_set py_set_Nil_iff py_set_Nil)

lemma setting_arg_eq: "(if s \<noteq> [] then normalize_string s else []) = normalize_string s"
  by (simp add: normalize_string_Nil)

lemma unpack_tags:
  "AA' (unpack a) = dict_get (AA a) []"
  "LC' (unpack a) = dict_get (LC a) []"
  "ALT' (unpack a) = dict_get (ALT a) []"
  "CSB' (unpack a) = dict_get (CSB a) []"
  "SET' (unpack a) = dict_get (SET a) []"
  "HS' (unpack a) = py_set (dict_get (HS a) [])"
  "CPS' (unpack a) = dict_get (CPS a) []"
  "SPT' (unpack a) = py_set (dict_get (SPT a) [])"
  "CLB' (unpack a) = py_set (dict_get (CLB a) [])"
  by (simp_all add: unpack_def Let_def)

lemma unpack_traits:
  "LS' (unpack a) = py_int (dict_get (LS a) 3)"
  "SP' (unpack a) = py_int (dict_get (SP a) 3)"
  "CO' (unpack a) = py_int (dict_get (CO a) 3)"
  "UR' (unpack a) = py_int (dict_get (UR a) 3)"
  "CR' (unpack a) = py_int (dict_get (CR a) 3)"
  "CE' (unpack a) = py_int (dict_get (CE a) 3)"
  "ME' (unpack a) = py_int (dict_get (ME a) 3)"
  "CP' (unpack a) = py_int (dict_get (CP a) 3)"
  "NS' (unpack a) = py_int (dict_get (NS a) 3)"
  "CEV' (unpack a) = py_int (dict_get (CEV a) 3)"
  by (simp_all add: unpack_def Let_def)

lemma unpack_weights:
  "wa' (unpack a) = dict_get (wa a) 1"
  "wc' (unpack a) = dict_get (wc a) 1"
  "wso' (unpack a) = dict_get (wso a) 1"
  "W_TOTAL' (unpack a) = dict_get (wa a) 1 + dict_get (wc a) 1 + dict_get (wso a) 1"
  by (simp_all add: unpack_def Let_def)

lemma dict_get_Some: "dict_get (Some x) d = x"
  by (simp add: dict_get_def)

lemma campus_size_score_empty:
  "campus_size_score [] prog_cps = campus_size_score ''Medium'' prog_cps"
  by (simp add: campus_size_score_def capitalize_def upper_char_def lower_char_def)

lemma campus_size_score_default:
  "campus_size_score (if user_cps \<noteq> [] then user_cps else ''Medium'') prog_cps
     = campus_size_score user_cps prog_cps"
  by (simp add: campus_size_score_def capitalize_def upper_char_def lower_char_def)

lemma scorers_agree_aux:
  assumes tags: "AA a = Some aa" "LC a = Some lc" "ALT a = Some alt" "CSB a = Some csb"
    and ans: "LS a = Some (real_of_int ls)" "SP a = Some (real_of_int sp)"
      "CO a = Some (real_of_int co)" "UR a = Some (real_of_int ur)"
      "CR a = Some (real_of_int cr)" "CE a = Some (real_of_int ce)"
      "ME a = Some (real_of_int me)" "CP a = Some (real_of_int cp)"
      "NS a = Some (real_of_int ns)" "CEV a = Some (real_of_int cev)"
  shows "score_academic p a = api_score_academic (unpack a) p
       \<and> score_campus p a = api_score_campus (unpack a) p
       \<and> score_social p a = api_score_social (unpack a) p"
proof (intro conjI)
  show "score_academic p a = api_score_academic (unpack a) p"
  proof (cases "academic p")
    case None
    then show ?thesis
      by (simp add: score_academic_def api_score_academic_def bindE_def getitem_def)
  next
    case (Some acad)
    show ?thesis
    proof (cases "interests acad")
      case None
      then show ?thesis using Some
        by (simp add: score_academic_def api_score_academic_def bindE_def getitem_def)
    next
      case (Some prog_int)
      show ?thesis
        unfolding score_academic_eq [OF \<open>academic p = Some acad\<close> Some tags(1-3) ans(1-8)]
          api_score_academic_eq [OF \<open>academic p = Some acad\<close> Some]
        by (simp add: unpack_tags unpack_traits tags ans dict_get_Some py_int_of_int)
    qed
  qed
  show "score_campus p a = api_score_campus (unpack a) p"
  proof (cases "campus p")
    case None
    then show ?thesis
      by (simp add: score_campus_def api_score_campus_def bindE_def getitem_def)
  next
    case (Some base)
    have cps: "campus_size_score (dict_get (CPS a) ''Medium'') (dict_get (campus_size base) ''Medium'')
        = campus_size_score (if dict_get (CPS a) [] \<noteq> [] then dict_get (CPS a) [] else ''Medium'')
            (dict_get (campus_size base) ''Medium'')"
      by (cases "CPS a") (simp_all add: dict_get_def campus_size_score_empty)
    show ?thesis
      unfolding score_campus_eq [OF Some tags(4)] api_score_campus_eq [OF Some] cps
      by (simp only: unpack_tags tags dict_get_Some set_arg_eq setting_arg_eq)
  qed
  show "score_social p a = api_score_social (unpack a) p"
  proof (cases "social p")
    case None
    then show ?thesis
      by (simp add: score_social_def api_score_social_def bindE_def getitem_def)
  next
    case (Some base)
    show ?thesis
      unfolding score_social_eq [OF Some ans(9,10)] api_score_social_eq [OF Some]
      by (simp only: unpack_tags unpack_traits ans dict_get_Some py_int_of_int set_arg_eq)
  qed
qed

text \<open>
  Claim C10. Given the same dictionary of answers, one that has the keys
  \<^verbatim>\<open>match_me.py\<close> indexes and whole numbers for the ten trait answers, the
  module-level scorers of \<^verbatim>\<open>match_me.py\<close> and the nested scorers of
  \<^verbatim>\<open>api.py\<close> (run on the unpacked answers) return the same result for every
  program, a score or the same exception.
\<close>

theorem scorers_agree:
  assumes "AA a = Some aa" "LC a = Some lc" "ALT a = Some alt" "CSB a = Some csb"
    and "LS a = Some (real_of_int ls)" "SP a = Some (real_of_int sp)"
      "CO a = Some (real_of_int co)" "UR a = Some (real_of_int ur)"
      "CR a = Some (real_of_int cr)" "CE a = Some (real_of_int ce)"
      "ME a = Some (real_of_int me)" "CP a = Some (real_of_int cp)"
      "NS a = Some (real_of_int ns)" "CEV a = Some (real_of_int cev)"
  shows "score_academic p a = api_score_academic (unpack a) p
       \<and> score_campus p a = api_score_campus (unpack a) p
       \<and> score_social p a = api_score_social (unpack a) p"
  using assms by (rule scorers_agree_aux)

theorem scorers_agree_witness:
  "score_academic neutral_program neutral_answers
     = api_score_academic (unpack neutral_answers) neutral_program
   \<and> score_campus neutral_program neutral_answers
     = api_score_campus (unpack neutral_answers) neutral_program
   \<and> score_social neutral_program neutral_answers
     = api_score_social (unpack neutral_answers) neutral_program"
  using scorers_agree [of neutral_answers "[]" "[]" "[]" "''< 60''" 3 3 3 3 3 3 3 3 3 3
          neutral_program]
  by (simp add: neutral_answers_def)

end
